theory Spec2Isabelle
  imports Complex_Main
begin

section \<open>The Target record of tom\_targets/models.py\<close>

text \<open>
  A shallow embedding of \<^verbatim>\<open>src/tom_targets/models.py\<close>: the \<^verbatim>\<open>Target\<close> model, its
  three module-level field lists, \<^verbatim>\<open>as_dict\<close>, \<^verbatim>\<open>get_object_instance_for_type\<close> and
  \<^verbatim>\<open>get_visibility\<close>.

  Python values that end up in a dictionary are values of \<open>pyval\<close>. A \<^verbatim>\<open>FloatField\<close> with
  \<^verbatim>\<open>null=True\<close> holds a float or \<^verbatim>\<open>None\<close>: \<open>real option\<close>. No arithmetic is done on these
  numbers anywhere in the file; they are stored and handed on. A \<^verbatim>\<open>DateTimeField\<close> holds
  a \<^verbatim>\<open>datetime\<close>: the number of microseconds since 1970-01-01 00:00:00 of its date and
  time fields (\<open>int\<close>). Python's \<^verbatim>\<open>datetime\<close> is bounded, from \<^verbatim>\<open>datetime.min\<close> (the first
  instant of year 1) to \<^verbatim>\<open>datetime.max\<close> (the last microsecond of year 9999); the bounds
  are \<open>datetime_min\<close> and \<open>datetime_max\<close> below, and an addition that leaves them raises.
\<close>

datatype pyval = PyNone | PyStr string | PyFloat real | PyInt int | PyDateTime int

type_synonym datetime = int

text \<open>
  Lines 29 to 60. Django adds the automatic primary key \<^verbatim>\<open>id\<close> (the source reads it as
  \<^verbatim>\<open>self.id\<close> and orders by it); it is \<^verbatim>\<open>None\<close> until the row is saved. The field is named
  \<open>id_field\<close> here, since \<open>id\<close> is the identity function of HOL.
\<close>

record target =
  id_field :: "int option"
  "identifier" :: string
  name :: string
  type :: string
  designation :: string
  created :: datetime
  modified :: datetime
  ra :: "real option"
  dec :: "real option"
  epoch :: "real option"
  parallax :: "real option"
  pm_ra :: "real option"
  pm_dec :: "real option"
  galactic_lng :: "real option"
  galactic_lat :: "real option"
  distance :: "real option"
  distance_err :: "real option"
  mean_anomaly :: "real option"
  arg_of_perihelion :: "real option"
  eccentricity :: "real option"
  lng_asc_node :: "real option"
  inclination :: "real option"
  mean_daily_motion :: "real option"
  semimajor_axis :: "real option"
  ephemeris_period :: "real option"
  ephemeris_period_err :: "real option"
  ephemeris_epoch :: "real option"
  ephemeris_epoch_err :: "real option"

text \<open>Lines 14 to 26: the three module-level lists.\<close>

definition GLOBAL_TARGET_FIELDS :: "string list" where
  "GLOBAL_TARGET_FIELDS = [''identifier'', ''name'', ''designation'', ''type'']"

definition SIDEREAL_FIELDS :: "string list" where
  "SIDEREAL_FIELDS = GLOBAL_TARGET_FIELDS @
     [''ra'', ''dec'', ''epoch'', ''pm_ra'', ''pm_dec'',
      ''galactic_lng'', ''galactic_lat'', ''distance'', ''distance_err'']"

definition NON_SIDEREAL_FIELDS :: "string list" where
  "NON_SIDEREAL_FIELDS = GLOBAL_TARGET_FIELDS @
     [''mean_anomaly'', ''arg_of_perihelion'',
      ''lng_asc_node'', ''inclination'', ''mean_daily_motion'', ''semimajor_axis'',
      ''ephemeris_period'', ''ephemeris_period_err'', ''ephemeris_epoch'',
      ''ephemeris_epoch_err'']"

text \<open>Lines 30 and 31: the two class constants.\<close>

definition SIDEREAL :: string where
  "SIDEREAL = ''SIDEREAL''"

definition NON_SIDEREAL :: string where
  "NON_SIDEREAL = ''NON_SIDEREAL''"

subsection \<open>The model's fields as Django sees them\<close>

text \<open>
  \<^verbatim>\<open>model_to_dict\<close> (imported on line 5 from \<^verbatim>\<open>django.forms.models\<close>) is library code,
  not code of this repository. Its documented behaviour is modelled here: it walks the
  model's fields in the order of their declaration in the class (the automatic \<^verbatim>\<open>id\<close>
  first), skips a field that is not editable, skips a field whose name is not in
  \<^verbatim>\<open>fields\<close>, and stores \<^verbatim>\<open>data[f.name] = f.value_from_object(instance)\<close>. The result is a
  Python dictionary, whose keys keep the order of insertion: an association list. This
  is also what section 4.1 of the specification says of the projection ("restricted to
  fields, preserving declared field order").

  \<open>concrete_fields\<close> is \<^verbatim>\<open>Target._meta.concrete_fields\<close>, read off lines 34 to 60: the
  name, whether the field is editable, and the value it reads from an instance. Django
  makes a \<^verbatim>\<open>DateTimeField\<close> with \<^verbatim>\<open>auto_now\<close> or \<^verbatim>\<open>auto_now_add\<close> not editable; every other
  field here is editable. The parameter \<^verbatim>\<open>fields\<close> is written \<open>fields'\<close>: the record package
  owns the name \<open>fields\<close>.
\<close>

definition float_value :: "real option \<Rightarrow> pyval" where
  "float_value x = (case x of None \<Rightarrow> PyNone | Some r \<Rightarrow> PyFloat r)"

definition int_value :: "int option \<Rightarrow> pyval" where
  "int_value x = (case x of None \<Rightarrow> PyNone | Some i \<Rightarrow> PyInt i)"

definition concrete_fields :: "(string \<times> bool \<times> (target \<Rightarrow> pyval)) list" where
  "concrete_fields =
    [(''id'', True, \<lambda>t. int_value (id_field t)),
     (''identifier'', True, \<lambda>t. PyStr (identifier t)),
     (''name'', True, \<lambda>t. PyStr (name t)),
     (''type'', True, \<lambda>t. PyStr (type t)),
     (''designation'', True, \<lambda>t. PyStr (designation t)),
     (''created'', False, \<lambda>t. PyDateTime (created t)),
     (''modified'', False, \<lambda>t. PyDateTime (modified t)),
     (''ra'', True, \<lambda>t. float_value (ra t)),
     (''dec'', True, \<lambda>t. float_value (dec t)),
     (''epoch'', True, \<lambda>t. float_value (epoch t)),
     (''parallax'', True, \<lambda>t. float_value (parallax t)),
     (''pm_ra'', True, \<lambda>t. float_value (pm_ra t)),
     (''pm_dec'', True, \<lambda>t. float_value (pm_dec t)),
     (''galactic_lng'', True, \<lambda>t. float_value (galactic_lng t)),
     (''galactic_lat'', True, \<lambda>t. float_value (galactic_lat t)),
     (''distance'', True, \<lambda>t. float_value (distance t)),
     (''distance_err'', True, \<lambda>t. float_value (distance_err t)),
     (''mean_anomaly'', True, \<lambda>t. float_value (mean_anomaly t)),
     (''arg_of_perihelion'', True, \<lambda>t. float_value (arg_of_perihelion t)),
     (''eccentricity'', True, \<lambda>t. float_value (eccentricity t)),
     (''lng_asc_node'', True, \<lambda>t. float_value (lng_asc_node t)),
     (''inclination'', True, \<lambda>t. float_value (inclination t)),
     (''mean_daily_motion'', True, \<lambda>t. float_value (mean_daily_motion t)),
     (''semimajor_axis'', True, \<lambda>t. float_value (semimajor_axis t)),
     (''ephemeris_period'', True, \<lambda>t. float_value (ephemeris_period t)),
     (''ephemeris_period_err'', True, \<lambda>t. float_value (ephemeris_period_err t)),
     (''ephemeris_epoch'', True, \<lambda>t. float_value (ephemeris_epoch t)),
     (''ephemeris_epoch_err'', True, \<lambda>t. float_value (ephemeris_epoch_err t))]"

definition model_to_dict :: "target \<Rightarrow> string list \<Rightarrow> (string \<times> pyval) list" where
  "model_to_dict instance fields' =
     map (\<lambda>(n, e, v). (n, v instance))
       (List.filter (\<lambda>(n, e, v). e \<and> n \<in> set fields') concrete_fields)"

subsection \<open>as\_dict\<close>

text \<open>
  Lines 71 to 79. \<open>fields_for_type\<close> is the local variable of that name: the list the
  \<^verbatim>\<open>if\<close>/\<^verbatim>\<open>elif\<close>/\<^verbatim>\<open>else\<close> chain selects from \<^verbatim>\<open>self.type\<close>.
\<close>

definition fields_for_type :: "string \<Rightarrow> string list" where
  "fields_for_type ty =
     (if ty = SIDEREAL then SIDEREAL_FIELDS
      else if ty = NON_SIDEREAL then NON_SIDEREAL_FIELDS
      else GLOBAL_TARGET_FIELDS)"

definition as_dict :: "target \<Rightarrow> (string \<times> pyval) list" where
  "as_dict self = model_to_dict self (fields_for_type (type self))"

text \<open>The keys of a dictionary, in the order of insertion.\<close>

definition keys :: "(string \<times> pyval) list \<Rightarrow> string list" where
  "keys d = map fst d"

section \<open>The visibility calculator\<close>

subsection \<open>get\_object\_instance\_for\_type\<close>

text \<open>
  Lines 81 to 93. The two objects the method can build are \<^verbatim>\<open>skyfield\<close>'s; they are data
  here, with the keyword arguments in the order the source writes them:
  \<^verbatim>\<open>Star(ra_hours, dec_degrees, ra_mas_per_year, dec_mas_per_year, epoch, parallax_mas)\<close> and
  \<^verbatim>\<open>OsculatingElements(eccentricity, inclination, longitude_of_ascending_node)\<close>.
\<close>

datatype sky_object =
    Star "real option" "real option" "real option" "real option" "real option" "real option"
  | OsculatingElements "real option" "real option" "real option"

text \<open>
  The conditions of lines 82 and 89 read \<^verbatim>\<open>type == self.SIDEREAL\<close> and
  \<^verbatim>\<open>type == self.NON_SIDEREAL\<close>: the name \<^verbatim>\<open>type\<close> is neither a parameter nor a local
  variable of the method, so it is Python's builtin class \<^verbatim>\<open>type\<close>, and it is compared
  with a string. \<open>pyobject\<close> holds the two kinds of object that meet in that comparison;
  \<^verbatim>\<open>==\<close> between a class and a string is identity, which is equality of the datatype.
  A method that falls off its last branch returns \<^verbatim>\<open>None\<close>.
\<close>

datatype pyobject = PyString string | PyBuiltinClass string

definition builtin_type :: pyobject where
  "builtin_type = PyBuiltinClass ''type''"

definition get_object_instance_for_type :: "target \<Rightarrow> sky_object option" where
  "get_object_instance_for_type self =
     (if builtin_type = PyString SIDEREAL then
        Some (Star (ra self) (dec self) (pm_ra self) (pm_dec self) (epoch self) (parallax self))
      else if builtin_type = PyString NON_SIDEREAL then
        Some (OsculatingElements (eccentricity self) (inclination self) (lng_asc_node self))
      else None)"

subsection \<open>The time samples of line 107\<close>

text \<open>
  An exception is a value: \<open>ValueError\<close> is what \<^verbatim>\<open>range\<close> raises for a step of zero,
  \<open>OverflowError\<close> is what the addition of a \<^verbatim>\<open>timedelta\<close> to a \<^verbatim>\<open>datetime\<close> raises when the sum
  is out of range, and \<open>LibraryError x\<close> is an exception \<open>x\<close> raised inside the ephemeris
  library.
\<close>

datatype 'x error = ValueError | OverflowError | LibraryError 'x

text \<open>
  \<^verbatim>\<open>range(start, stop, step)\<close> on Python's unbounded integers: counting up while below
  \<open>stop\<close> for a positive step, counting down while above it for a negative one.
\<close>

function range_up :: "int \<Rightarrow> int \<Rightarrow> int \<Rightarrow> int list" where
  "range_up i stop step =
     (if 0 < step \<and> i < stop then i # range_up (i + step) stop step else [])"
  by pat_completeness auto
termination
  by (relation "measure (\<lambda>(i, stop, step). nat (stop - i))") auto

declare range_up.simps [simp del]

function range_down :: "int \<Rightarrow> int \<Rightarrow> int \<Rightarrow> int list" where
  "range_down i stop step =
     (if step < 0 \<and> stop < i then i # range_down (i + step) stop step else [])"
  by pat_completeness auto
termination
  by (relation "measure (\<lambda>(i, stop, step). nat (i - stop))") auto

declare range_down.simps [simp del]

definition py_range :: "int \<Rightarrow> int \<Rightarrow> int \<Rightarrow> 'x error + int list" where
  "py_range start stop step =
     (if step = 0 then Inl ValueError
      else if 0 < step then Inr (range_up start stop step)
      else Inr (range_down start stop step))"

text \<open>
  \<^verbatim>\<open>timedelta(minutes=i)\<close>, in microseconds. The \<open>i\<close> of line 107 come from
  \<^verbatim>\<open>range(0, 60, interval)\<close> and lie between 0 and 59, far inside the range of \<^verbatim>\<open>timedelta\<close>.
\<close>

definition timedelta_minutes :: "int \<Rightarrow> int" where
  "timedelta_minutes i = i * 60000000"

text \<open>
  \<^verbatim>\<open>datetime.min\<close> is 0001-01-01 00:00:00, 719162 days before 1970-01-01, and
  \<^verbatim>\<open>datetime.max\<close> is 9999-12-31 23:59:59.999999, the last microsecond of the 2932897 days
  from 1970-01-01 on. \<^verbatim>\<open>datetime + timedelta\<close> raises \<^verbatim>\<open>OverflowError\<close> when the sum is not
  between the two.
\<close>

definition datetime_min :: datetime where
  "datetime_min = - 62135596800000000"

definition datetime_max :: datetime where
  "datetime_max = 253402300799999999"

definition datetime_add :: "datetime \<Rightarrow> int \<Rightarrow> 'x error + datetime" where
  "datetime_add d delta =
     (if datetime_min \<le> d + delta \<and> d + delta \<le> datetime_max then Inr (d + delta)
      else Inl OverflowError)"

text \<open>
  The list comprehension of line 107,
  \<^verbatim>\<open>[start_time + timedelta(minutes=i) for i in range(0, 60, interval)]\<close>: the elements are
  computed from left to right, and the first addition that raises ends the comprehension
  with no list.
\<close>

fun add_minutes_each :: "datetime \<Rightarrow> int list \<Rightarrow> 'x error + datetime list" where
  "add_minutes_each start_time [] = Inr []"
| "add_minutes_each start_time (i # is) =
     (case datetime_add start_time (timedelta_minutes i) of
        Inl e \<Rightarrow> Inl e
      | Inr t \<Rightarrow>
          (case add_minutes_each start_time is of
             Inl e \<Rightarrow> Inl e
           | Inr ts \<Rightarrow> Inr (t # ts)))"

definition sample_times :: "datetime \<Rightarrow> int \<Rightarrow> 'x error + datetime list" where
  "sample_times start_time interval =
     (case py_range 0 60 interval of
        Inl e \<Rightarrow> Inl e
      | Inr is \<Rightarrow> add_minutes_each start_time is)"

subsection \<open>get\_visibility\<close>

text \<open>
  Lines 95 to 115. What the method calls outside this file is a parameter:
  \<^item> \<open>load\<close>: \<^verbatim>\<open>load('de421.bsp')\<close> followed by \<^verbatim>\<open>load.timescale()\<close>; \<open>None\<close> when both
    return, \<open>Some x\<close> when one of them raises \<open>x\<close>. What they return is held by the two
    functions below.
  \<^item> \<open>registry\<close>: the facilities of \<^verbatim>\<open>facility.get_service_classes()\<close> in the order of
    iteration, each with the \<^verbatim>\<open>items()\<close> of its \<^verbatim>\<open>get_observing_sites()\<close>: the site's name
    and its details, a dictionary read with \<^verbatim>\<open>.get\<close>.
  \<^item> \<open>observing_site\<close>: \<^verbatim>\<open>planets['earth'] + Topos(latitude, longitude)\<close>.
  \<^item> \<open>altaz\<close>: the chain \<^verbatim>\<open>ts.utc\<close>, \<^verbatim>\<open>at\<close>, \<^verbatim>\<open>observe\<close>, \<^verbatim>\<open>apparent\<close>, \<^verbatim>\<open>altaz\<close> of
    lines 107 to 110, from the observing site, the list of times and the target object
    (\<open>None\<close> for Python's \<^verbatim>\<open>None\<close>) to altitude, azimuth and distance, or to the exception it
    raises.
  The types \<open>'x\<close> (library exceptions), \<open>'c\<close> (coordinates), \<open>'o\<close> (observing sites), \<open>'a\<close>
  (angles) and \<open>'d\<close> (distances) are the library's.
  The registry is taken as it is given: a failure of the registry itself is not
  modelled.
\<close>

record ('x, 'c, 'o, 'a, 'd) library =
  load :: "'x option"
  registry :: "(string \<times> (string \<times> (string \<rightharpoonup> 'c)) list) list"
  observing_site :: "'c option \<Rightarrow> 'c option \<Rightarrow> 'x + 'o"
  altaz :: "'o \<Rightarrow> datetime list \<Rightarrow> sky_object option \<Rightarrow> 'x + ('a \<times> 'a \<times> 'd)"

text \<open>What \<^verbatim>\<open>print\<close> has written: one entry for each call of lines 111 to 114.\<close>

datatype ('a, 'd) printed = PrintAngle 'a | PrintDistance 'd | PrintBlank

text \<open>
  Lines 111 to 114: \<^verbatim>\<open>print(alt)\<close>, \<^verbatim>\<open>print(az)\<close>, \<^verbatim>\<open>print(distance)\<close>, \<^verbatim>\<open>print()\<close>. The third
  variable is written \<open>distance'\<close>, \<open>distance\<close> being a field of the record.
\<close>

definition print_altaz :: "'a \<Rightarrow> 'a \<Rightarrow> 'd \<Rightarrow> ('a, 'd) printed list" where
  "print_altaz alt az distance' =
     [PrintAngle alt, PrintAngle az, PrintDistance distance', PrintBlank]"

text \<open>
  The body of the inner loop, lines 101 to 114, for one site: the lines it prints, or
  the first exception raised.
\<close>

definition site_body ::
  "('x, 'c, 'o, 'a, 'd) library \<Rightarrow> target \<Rightarrow> datetime \<Rightarrow> int \<Rightarrow> (string \<rightharpoonup> 'c)
     \<Rightarrow> 'x error + ('a, 'd) printed list" where
  "site_body lib self start_time interval site_details =
     (case observing_site lib (site_details ''latitude'') (site_details ''longitude'') of
        Inl x \<Rightarrow> Inl (LibraryError x)
      | Inr obs \<Rightarrow>
          (let target_object = get_object_instance_for_type self in
           case sample_times start_time interval of
             Inl e \<Rightarrow> Inl e
           | Inr time_range \<Rightarrow>
               (case altaz lib obs time_range target_object of
                  Inl x \<Rightarrow> Inl (LibraryError x)
                | Inr (alt, az, distance') \<Rightarrow> Inr (print_altaz alt az distance'))))"

text \<open>
  The two loops. The output so far is passed along and kept when an exception ends the
  run, as what \<^verbatim>\<open>print\<close> has written stays written.
\<close>

fun for_sites ::
  "('x, 'c, 'o, 'a, 'd) library \<Rightarrow> target \<Rightarrow> datetime \<Rightarrow> int
     \<Rightarrow> (string \<times> (string \<rightharpoonup> 'c)) list \<Rightarrow> ('a, 'd) printed list
     \<Rightarrow> ('a, 'd) printed list \<times> ('x error + unit)" where
  "for_sites lib self start_time interval [] out = (out, Inr ())"
| "for_sites lib self start_time interval ((site, site_details) # sites) out =
     (case site_body lib self start_time interval site_details of
        Inl e \<Rightarrow> (out, Inl e)
      | Inr lines \<Rightarrow> for_sites lib self start_time interval sites (out @ lines))"

fun for_facilities ::
  "('x, 'c, 'o, 'a, 'd) library \<Rightarrow> target \<Rightarrow> datetime \<Rightarrow> int
     \<Rightarrow> (string \<times> (string \<times> (string \<rightharpoonup> 'c)) list) list \<Rightarrow> ('a, 'd) printed list
     \<Rightarrow> ('a, 'd) printed list \<times> ('x error + unit)" where
  "for_facilities lib self start_time interval [] out = (out, Inr ())"
| "for_facilities lib self start_time interval ((observing_facility, sites) # rest) out =
     (case for_sites lib self start_time interval sites out of
        (out', Inl e) \<Rightarrow> (out', Inl e)
      | (out', Inr u) \<Rightarrow> for_facilities lib self start_time interval rest out')"

text \<open>
  The method: what it has printed, and how it ends. It ends with an exception or by
  running into \<^verbatim>\<open>pass\<close> on line 115, after which it returns \<^verbatim>\<open>None\<close>, the value \<open>PyNone\<close>;
  the method has no \<^verbatim>\<open>return\<close> statement.
\<close>

definition get_visibility ::
  "('x, 'c, 'o, 'a, 'd) library \<Rightarrow> target \<Rightarrow> datetime \<Rightarrow> datetime \<Rightarrow> int
     \<Rightarrow> ('a, 'd) printed list \<times> ('x error + pyval)" where
  "get_visibility lib self start_time end_time interval =
     (case load lib of
        Some x \<Rightarrow> ([], Inl (LibraryError x))
      | None \<Rightarrow>
          (case for_facilities lib self start_time interval (registry lib) [] of
             (out, Inl e) \<Rightarrow> (out, Inl e)
           | (out, Inr u) \<Rightarrow> (out, Inr PyNone)))"

text \<open>Every site of the registry, in the order the loops visit them.\<close>

definition all_sites :: "('x, 'c, 'o, 'a, 'd) library \<Rightarrow> (string \<times> (string \<rightharpoonup> 'c)) list" where
  "all_sites lib = concat (map snd (registry lib))"

subsection \<open>Describing a run\<close>

text \<open>
  The vocabulary in which the properties of \<^verbatim>\<open>get_visibility\<close> are stated; none of it is
  used by the definitions above.

  \<open>site_answer lib samples target_object d\<close> is what the library answers when it is asked
  about the site with details \<open>d\<close>, the list of times \<open>samples\<close> and the target object: the
  exception of building the site's position, or else what \<open>altaz\<close> gives. \<open>answers\<close> are the
  answers for a list of sites, in the order of the list.
\<close>

definition site_answer ::
  "('x, 'c, 'o, 'a, 'd) library \<Rightarrow> datetime list \<Rightarrow> sky_object option \<Rightarrow> (string \<rightharpoonup> 'c)
     \<Rightarrow> 'x + ('a \<times> 'a \<times> 'd)" where
  "site_answer lib samples target_object d =
     (case observing_site lib (d ''latitude'') (d ''longitude'') of
        Inl x \<Rightarrow> Inl x
      | Inr obs \<Rightarrow> altaz lib obs samples target_object)"

definition answers ::
  "('x, 'c, 'o, 'a, 'd) library \<Rightarrow> datetime list \<Rightarrow> sky_object option
     \<Rightarrow> (string \<times> (string \<rightharpoonup> 'c)) list \<Rightarrow> ('x + ('a \<times> 'a \<times> 'd)) list" where
  "answers lib samples target_object sites =
     map (\<lambda>(site, d). site_answer lib samples target_object d) sites"

text \<open>
  \<open>report ans\<close> is the run that a list of answers stands for: the four printed lines of
  every answer before the first exception, in the order of the list, and then that first
  exception, or \<^verbatim>\<open>None\<close> returned when no answer is an exception.
\<close>

definition printed_for :: "'x + ('a \<times> 'a \<times> 'd) \<Rightarrow> ('a, 'd) printed list" where
  "printed_for a = (case a of Inl x \<Rightarrow> [] | Inr (alt, az, dd) \<Rightarrow> print_altaz alt az dd)"

definition report ::
  "('x + ('a \<times> 'a \<times> 'd)) list \<Rightarrow> ('a, 'd) printed list \<times> ('x error + pyval)" where
  "report ans =
     (concat (map printed_for (takeWhile (\<lambda>a. \<not> isl a) ans)),
      case List.find isl ans of
        None \<Rightarrow> Inr PyNone
      | Some a \<Rightarrow> Inl (LibraryError (projl a)))"

section \<open>Concrete inputs\<close>

text \<open>
  \<open>value_from_object instance n\<close> is the current content of the field named \<open>n\<close>
  (\<^verbatim>\<open>f.value_from_object(instance)\<close> for the field \<^verbatim>\<open>f\<close> of that name), if the model has
  such a field.
\<close>

definition value_from_object :: "target \<Rightarrow> string \<Rightarrow> pyval option" where
  "value_from_object instance n =
     map_of (map (\<lambda>(n, e, v). (n, v instance)) concrete_fields) n"

text \<open>
  A saved sidereal target: right ascension 10, declination 20, no proper motion, epoch
  2000, parallax 0, the rest unset. The same record as a non-sidereal target with an
  eccentricity, and with a type that is neither.
\<close>

definition example_star :: target where
  "example_star =
     \<lparr>id_field = Some 1, identifier = ''HD 1'', name = ''star'', type = ''SIDEREAL'',
      designation = [], created = 0, modified = 0,
      ra = Some 10, dec = Some 20, epoch = Some 2000, parallax = Some 0,
      pm_ra = Some 0, pm_dec = Some 0, galactic_lng = None, galactic_lat = None,
      distance = None, distance_err = None, mean_anomaly = None, arg_of_perihelion = None,
      eccentricity = None, lng_asc_node = None, inclination = None, mean_daily_motion = None,
      semimajor_axis = None, ephemeris_period = None, ephemeris_period_err = None,
      ephemeris_epoch = None, ephemeris_epoch_err = None\<rparr>"

definition example_comet :: target where
  "example_comet = example_star\<lparr>type := ''NON_SIDEREAL'', eccentricity := Some (1 / 2)\<rparr>"

definition example_other :: target where
  "example_other = example_star\<lparr>type := ''PLANET''\<rparr>"

text \<open>
  A registry of one facility with one site, at latitude 31.6 and longitude -110.6, and
  three libraries over it. \<open>echo_library\<close> loads, builds any site and answers every
  request with what it was asked: the list of times as altitude and as azimuth, the
  target object as distance; so what \<^verbatim>\<open>get_visibility\<close> prints shows what it handed to the
  library. \<open>strict_library\<close> is the same but raises when the target object is \<^verbatim>\<open>None\<close>, as
  a library does that calls a method of the object it is given. \<open>no_sites_library\<close> is
  \<open>strict_library\<close> with an empty registry.
\<close>

definition example_site :: "string \<rightharpoonup> real" where
  "example_site = [''latitude'' \<mapsto> 316 / 10, ''longitude'' \<mapsto> - 1106 / 10]"

definition echo_library ::
  "(string, real, real option \<times> real option, datetime list, sky_object option) library" where
  "echo_library =
     \<lparr>load = None,
      registry = [(''LCO'', [(''site'', example_site)])],
      observing_site = (\<lambda>lat lon. Inr (lat, lon)),
      altaz = (\<lambda>obs time_range target_object. Inr (time_range, time_range, target_object))\<rparr>"

definition strict_library ::
  "(string, real, real option \<times> real option, datetime list, sky_object option) library" where
  "strict_library =
     echo_library\<lparr>altaz := (\<lambda>obs time_range target_object.
        case target_object of
          None \<Rightarrow> Inl ''AttributeError''
        | Some b \<Rightarrow> Inr (time_range, time_range, target_object))\<rparr>"

definition no_sites_library ::
  "(string, real, real option \<times> real option, datetime list, sky_object option) library" where
  "no_sites_library = strict_library\<lparr>registry := []\<rparr>"

text \<open>
  A registry of two facilities with one site each, and a library over it that answers
  with the site it was asked about next to the list of times, so that what is printed
  shows which site each answer is for. \<open>late_start\<close> is 9999-12-31 23:30:00, half an hour
  before the end of the range of \<^verbatim>\<open>datetime\<close>.
\<close>

definition second_site :: "string \<rightharpoonup> real" where
  "second_site = [''latitude'' \<mapsto> - 30, ''longitude'' \<mapsto> - 70]"

definition two_sites_library ::
  "(string, real, real option \<times> real option,
    (real option \<times> real option) \<times> datetime list, sky_object option) library" where
  "two_sites_library =
     \<lparr>load = None,
      registry = [(''LCO'', [(''site'', example_site)]), (''SOAR'', [(''second'', second_site)])],
      observing_site = (\<lambda>lat lon. Inr (lat, lon)),
      altaz = (\<lambda>obs time_range target_object.
        Inr ((obs, time_range), (obs, time_range), target_object))\<rparr>"

definition late_start :: datetime where
  "late_start = 253402299000000000"

section \<open>Properties of the field lists and of as\_dict\<close>

lemmas field_lists = GLOBAL_TARGET_FIELDS_def SIDEREAL_FIELDS_def NON_SIDEREAL_FIELDS_def

lemmas type_names = SIDEREAL_def NON_SIDEREAL_def

text \<open>The dictionary \<^verbatim>\<open>as_dict\<close> returns, in each of its three cases.\<close>

lemma as_dict_sidereal:
  "type t = SIDEREAL \<Longrightarrow> as_dict t =
     [(''identifier'', PyStr (identifier t)), (''name'', PyStr (name t)),
      (''type'', PyStr (type t)), (''designation'', PyStr (designation t)),
      (''ra'', float_value (ra t)), (''dec'', float_value (dec t)),
      (''epoch'', float_value (epoch t)), (''pm_ra'', float_value (pm_ra t)),
      (''pm_dec'', float_value (pm_dec t)), (''galactic_lng'', float_value (galactic_lng t)),
      (''galactic_lat'', float_value (galactic_lat t)), (''distance'', float_value (distance t)),
      (''distance_err'', float_value (distance_err t))]"
  by (simp add: as_dict_def model_to_dict_def concrete_fields_def fields_for_type_def field_lists)

lemma as_dict_non_sidereal:
  "type t = NON_SIDEREAL \<Longrightarrow> as_dict t =
     [(''identifier'', PyStr (identifier t)), (''name'', PyStr (name t)),
      (''type'', PyStr (type t)), (''designation'', PyStr (designation t)),
      (''mean_anomaly'', float_value (mean_anomaly t)),
      (''arg_of_perihelion'', float_value (arg_of_perihelion t)),
      (''lng_asc_node'', float_value (lng_asc_node t)),
      (''inclination'', float_value (inclination t)),
      (''mean_daily_motion'', float_value (mean_daily_motion t)),
      (''semimajor_axis'', float_value (semimajor_axis t)),
      (''ephemeris_period'', float_value (ephemeris_period t)),
      (''ephemeris_period_err'', float_value (ephemeris_period_err t)),
      (''ephemeris_epoch'', float_value (ephemeris_epoch t)),
      (''ephemeris_epoch_err'', float_value (ephemeris_epoch_err t))]"
  by (simp add: as_dict_def model_to_dict_def concrete_fields_def fields_for_type_def field_lists
      type_names)

lemma as_dict_other:
  "type t \<noteq> SIDEREAL \<Longrightarrow> type t \<noteq> NON_SIDEREAL \<Longrightarrow> as_dict t =
     [(''identifier'', PyStr (identifier t)), (''name'', PyStr (name t)),
      (''type'', PyStr (type t)), (''designation'', PyStr (designation t))]"
  by (simp add: as_dict_def model_to_dict_def concrete_fields_def fields_for_type_def field_lists)

lemma type_cases:
  obtains (sidereal) "type t = SIDEREAL" | (non_sidereal) "type t = NON_SIDEREAL"
  | (other) "type t \<noteq> SIDEREAL" "type t \<noteq> NON_SIDEREAL"
  by blast

lemma keys_as_dict_set: "set (keys (as_dict t)) = set (fields_for_type (type t))"
  by (cases t rule: type_cases)
     (auto simp add: as_dict_sidereal as_dict_non_sidereal as_dict_other keys_def
        fields_for_type_def field_lists type_names)

lemma keys_as_dict_distinct: "distinct (keys (as_dict t))"
  by (cases t rule: type_cases)
     (simp_all add: as_dict_sidereal as_dict_non_sidereal as_dict_other keys_def)

lemma keys_as_dict_order:
  "keys (as_dict t) =
     List.filter (\<lambda>n. n \<in> set (fields_for_type (type t))) (map fst concrete_fields)"
  by (cases t rule: type_cases)
     (simp_all add: as_dict_sidereal as_dict_non_sidereal as_dict_other keys_def
        fields_for_type_def field_lists concrete_fields_def type_names)

lemma values_as_dict:
  "map_of (as_dict t) k =
     (if k \<in> set (fields_for_type (type t)) then value_from_object t k else None)"
  by (cases t rule: type_cases)
     (simp_all add: as_dict_sidereal as_dict_non_sidereal as_dict_other value_from_object_def
        fields_for_type_def field_lists concrete_fields_def type_names)

lemma example_star_sidereal: "type example_star = SIDEREAL"
  by (simp add: example_star_def SIDEREAL_def)

lemma example_comet_non_sidereal: "type example_comet = NON_SIDEREAL"
  by (simp add: example_comet_def NON_SIDEREAL_def)

lemma example_other_type:
  "type example_other \<noteq> SIDEREAL \<and> type example_other \<noteq> NON_SIDEREAL"
  by (simp add: example_other_def type_names)

lemma as_dict_example_star:
  "as_dict example_star =
     [(''identifier'', PyStr ''HD 1''), (''name'', PyStr ''star''),
      (''type'', PyStr ''SIDEREAL''), (''designation'', PyStr []),
      (''ra'', PyFloat 10), (''dec'', PyFloat 20), (''epoch'', PyFloat 2000),
      (''pm_ra'', PyFloat 0), (''pm_dec'', PyFloat 0), (''galactic_lng'', PyNone),
      (''galactic_lat'', PyNone), (''distance'', PyNone), (''distance_err'', PyNone)]"
  unfolding as_dict_sidereal [OF example_star_sidereal]
  by (simp add: example_star_def float_value_def)

lemma as_dict_example_comet:
  "as_dict example_comet =
     [(''identifier'', PyStr ''HD 1''), (''name'', PyStr ''star''),
      (''type'', PyStr ''NON_SIDEREAL''), (''designation'', PyStr []),
      (''mean_anomaly'', PyNone), (''arg_of_perihelion'', PyNone),
      (''lng_asc_node'', PyNone), (''inclination'', PyNone),
      (''mean_daily_motion'', PyNone), (''semimajor_axis'', PyNone),
      (''ephemeris_period'', PyNone), (''ephemeris_period_err'', PyNone),
      (''ephemeris_epoch'', PyNone), (''ephemeris_epoch_err'', PyNone)]"
  unfolding as_dict_non_sidereal [OF example_comet_non_sidereal]
  by (simp add: example_comet_def example_star_def float_value_def)

lemma as_dict_example_other:
  "as_dict example_other =
     [(''identifier'', PyStr ''HD 1''), (''name'', PyStr ''star''),
      (''type'', PyStr ''PLANET''), (''designation'', PyStr [])]"
  using example_other_type
  by (simp add: as_dict_other) (simp add: example_other_def example_star_def)

lemma example_fields:
  "parallax example_star = Some 0" "eccentricity example_comet = Some (1 / 2)"
  "id_field example_other = Some 1"
  by (simp_all add: example_star_def example_comet_def example_other_def)

text \<open>
  C5. The claim: the list for each type holds every parameter of that type, parallax
  among the sidereal ones and eccentricity among the orbital ones. The lists of lines
  16 to 26 name every sidereal field of the model but \<^verbatim>\<open>parallax\<close> and every orbital field
  but \<^verbatim>\<open>eccentricity\<close>, so that \<^verbatim>\<open>as_dict\<close> drops the parallax of a sidereal target and the
  eccentricity of a non-sidereal one, though both are set.
\<close>

theorem field_lists_miss_parallax_and_eccentricity:
  "''parallax'' \<notin> set (fields_for_type SIDEREAL)
   \<and> ''eccentricity'' \<notin> set (fields_for_type NON_SIDEREAL)
   \<and> parallax example_star = Some 0
   \<and> map_of (as_dict example_star) ''parallax'' = None
   \<and> eccentricity example_comet = Some (1 / 2)
   \<and> map_of (as_dict example_comet) ''eccentricity'' = None"
  by (simp add: as_dict_example_star as_dict_example_comet example_fields
      fields_for_type_def field_lists type_names)

text \<open>
  C6. The selection of the field list is a function of the type alone, defined for
  every string: it gives the sidereal list for \<^verbatim>\<open>SIDEREAL\<close>, the non-sidereal list for
  \<^verbatim>\<open>NON_SIDEREAL\<close> and the four identity fields for any other type, and each of the three
  contains the four identity fields.
\<close>

theorem fields_for_type_selection:
  "set GLOBAL_TARGET_FIELDS \<subseteq> set (fields_for_type ty)
   \<and> (ty = SIDEREAL \<longrightarrow> fields_for_type ty = SIDEREAL_FIELDS)
   \<and> (ty = NON_SIDEREAL \<longrightarrow> fields_for_type ty = NON_SIDEREAL_FIELDS)
   \<and> (ty \<noteq> SIDEREAL \<and> ty \<noteq> NON_SIDEREAL \<longrightarrow> fields_for_type ty = GLOBAL_TARGET_FIELDS)
   \<and> GLOBAL_TARGET_FIELDS = [''identifier'', ''name'', ''designation'', ''type'']"
  by (auto simp add: fields_for_type_def field_lists type_names)

theorem fields_for_type_selection_witness:
  "fields_for_type ''SIDEREAL'' = SIDEREAL_FIELDS
   \<and> fields_for_type ''NON_SIDEREAL'' = NON_SIDEREAL_FIELDS
   \<and> fields_for_type ''PLANET'' = GLOBAL_TARGET_FIELDS
   \<and> set GLOBAL_TARGET_FIELDS \<subseteq> set (fields_for_type ''PLANET'')"
  using fields_for_type_selection [of "''SIDEREAL''"]
    fields_for_type_selection [of "''NON_SIDEREAL''"]
    fields_for_type_selection [of "''PLANET''"]
  by (simp add: type_names)

text \<open>
  C7, as stated: the keys of the dictionary come in the order of the requested list.
  They do not: the requested list has \<^verbatim>\<open>designation\<close> before \<^verbatim>\<open>type\<close>, the dictionary has
  \<^verbatim>\<open>type\<close> before \<^verbatim>\<open>designation\<close>, the order in which the model declares them.
\<close>

theorem as_dict_key_order_counterexample:
  "keys (as_dict example_star) \<noteq> fields_for_type (type example_star)"
  by (simp add: as_dict_example_star keys_def example_star_sidereal
      fields_for_type_def field_lists)

text \<open>
  C7, amended. For every target, the keys of \<^verbatim>\<open>as_dict\<close> are exactly the fields of the list
  selected for its type, none missing, none added and none twice, in the order in which
  the model declares its fields; and the value under each key is the current content of
  that field of the record (\<open>PyNone\<close> for an optional field that is not set).
\<close>

theorem as_dict_projection:
  "set (keys (as_dict t)) = set (fields_for_type (type t))
   \<and> distinct (keys (as_dict t))
   \<and> keys (as_dict t) =
       List.filter (\<lambda>n. n \<in> set (fields_for_type (type t))) (map fst concrete_fields)
   \<and> (\<forall>k. map_of (as_dict t) k =
         (if k \<in> set (fields_for_type (type t)) then value_from_object t k else None))"
  by (simp add: keys_as_dict_set keys_as_dict_distinct values_as_dict
      keys_as_dict_order [symmetric])

theorem as_dict_projection_witness:
  "set (keys (as_dict example_star)) = set SIDEREAL_FIELDS
   \<and> distinct (keys (as_dict example_star))
   \<and> map_of (as_dict example_star) ''ra'' = Some (PyFloat 10)
   \<and> map_of (as_dict example_star) ''distance'' = Some PyNone
   \<and> map_of (as_dict example_star) ''created'' = None"
proof -
  note p = as_dict_projection [of example_star]
  note k = p [THEN conjunct1]
  note d = p [THEN conjunct2, THEN conjunct1]
  note v = p [THEN conjunct2, THEN conjunct2, THEN conjunct2, rule_format]
  have f: "fields_for_type (type example_star) = SIDEREAL_FIELDS"
    by (simp add: example_star_sidereal fields_for_type_def)
  have "map_of (as_dict example_star) ''ra'' = Some (PyFloat 10)"
    unfolding v f
    by (simp add: field_lists value_from_object_def concrete_fields_def example_star_def
        float_value_def)
  moreover have "map_of (as_dict example_star) ''distance'' = Some PyNone"
    unfolding v f
    by (simp add: field_lists value_from_object_def concrete_fields_def example_star_def
        float_value_def)
  moreover have "map_of (as_dict example_star) ''created'' = None"
    unfolding v f by (simp add: field_lists)
  ultimately show ?thesis
    using k d f by simp
qed

text \<open>
  C10. Whatever the target and its type, the dictionary of \<^verbatim>\<open>as_dict\<close> has no key
  \<^verbatim>\<open>created\<close>, no key \<^verbatim>\<open>modified\<close> and no key \<^verbatim>\<open>id\<close>, and all its keys are in one of the three
  declared lists.
\<close>

theorem as_dict_no_bookkeeping_fields:
  "''created'' \<notin> set (keys (as_dict t))
   \<and> ''modified'' \<notin> set (keys (as_dict t))
   \<and> ''id'' \<notin> set (keys (as_dict t))
   \<and> (set (keys (as_dict t)) \<subseteq> set SIDEREAL_FIELDS
        \<or> set (keys (as_dict t)) \<subseteq> set NON_SIDEREAL_FIELDS
        \<or> set (keys (as_dict t)) \<subseteq> set GLOBAL_TARGET_FIELDS)"
  by (cases t rule: type_cases)
     (simp_all add: as_dict_sidereal as_dict_non_sidereal as_dict_other keys_def field_lists)

theorem as_dict_no_bookkeeping_fields_witness:
  "''created'' \<notin> set (keys (as_dict example_other))
   \<and> ''modified'' \<notin> set (keys (as_dict example_other))
   \<and> ''id'' \<notin> set (keys (as_dict example_other))
   \<and> id_field example_other = Some 1
   \<and> set (keys (as_dict example_other)) \<subseteq> set GLOBAL_TARGET_FIELDS"
  using as_dict_no_bookkeeping_fields [of example_other]
  by (simp add: as_dict_example_other keys_def field_lists example_fields)

section \<open>Properties of the visibility calculator\<close>

subsection \<open>The target object\<close>

text \<open>
  The builtin class is not a string, so neither condition of
  \<^verbatim>\<open>get_object_instance_for_type\<close> holds, whatever the target.
\<close>

lemma get_object_instance_for_type_None: "get_object_instance_for_type t = None"
  by (simp add: get_object_instance_for_type_def builtin_type_def)

text \<open>
  C1. The claim: a star model for a \<^verbatim>\<open>SIDEREAL\<close> target, an orbit model for a
  \<^verbatim>\<open>NON_SIDEREAL\<close> one. The method compares the builtin \<^verbatim>\<open>type\<close>, not \<^verbatim>\<open>self.type\<close>, with the
  two constants, and returns \<^verbatim>\<open>None\<close> for the sidereal and for the non-sidereal example.
\<close>

theorem object_instance_is_None_for_both_types:
  "type example_star = SIDEREAL
   \<and> get_object_instance_for_type example_star = None
   \<and> type example_comet = NON_SIDEREAL
   \<and> get_object_instance_for_type example_comet = None"
  by (simp add: get_object_instance_for_type_None example_star_sidereal
      example_comet_non_sidereal)

subsection \<open>The time samples\<close>

text \<open>
  \<open>range_up\<close> from \<open>i\<close> with a positive step yields \<open>i + k * step\<close> for exactly the \<open>k\<close>
  that keep it below \<open>stop\<close>.
\<close>

lemma range_up_char:
  "0 < step \<Longrightarrow>
     \<exists>n. range_up i stop step = map (\<lambda>k. i + int k * step) [0..<n]
       \<and> (\<forall>k. k < n \<longleftrightarrow> i + int k * step < stop)"
proof (induction i stop step rule: range_up.induct)
  case (1 i stop step)
  show ?case
  proof (cases "i < stop")
    case True
    with "1.prems" "1.IH" obtain n where
      l: "range_up (i + step) stop step = map (\<lambda>k. i + step + int k * step) [0..<n]"
      and b: "\<And>k. k < n \<longleftrightarrow> i + step + int k * step < stop"
      by auto
    have "range_up i stop step = i # map (\<lambda>k. i + step + int k * step) [0..<n]"
      using True "1.prems" l by (subst range_up.simps) simp
    also have "\<dots> = map (\<lambda>k. i + int k * step) [0..<Suc n]"
      by (simp add: upt_conv_Cons map_Suc_upt [symmetric] algebra_simps del: upt_Suc)
    finally have e: "range_up i stop step = map (\<lambda>k. i + int k * step) [0..<Suc n]" .
    have "k < Suc n \<longleftrightarrow> i + int k * step < stop" for k
    proof (cases k)
      case 0
      with True show ?thesis by simp
    next
      case (Suc j)
      with b [of j] show ?thesis by (simp add: algebra_simps)
    qed
    with e show ?thesis by blast
  next
    case False
    have "\<not> i + int k * step < stop" for k
    proof -
      have "0 \<le> int k * step" using "1.prems" by simp
      with False show ?thesis by linarith
    qed
    moreover have "range_up i stop step = []"
      using False by (subst range_up.simps) simp
    ultimately show ?thesis by (intro exI [of _ 0]) simp
  qed
qed

lemma add_minutes_each_in_range:
  "(\<forall>i \<in> set is. datetime_min \<le> s + timedelta_minutes i
       \<and> s + timedelta_minutes i \<le> datetime_max) \<Longrightarrow>
     add_minutes_each s is = Inr (map (\<lambda>i. s + timedelta_minutes i) is)"
  by (induction "is") (simp_all add: datetime_add_def)

lemma sample_times_zero: "sample_times s 0 = Inl ValueError"
  by (simp add: sample_times_def py_range_def)


text \<open>
  For a positive interval and a start from which every sample stays in the range of
  \<^verbatim>\<open>datetime\<close>, the list of line 107.
\<close>

lemma sample_times_positive:
  assumes "0 < interval" and "datetime_min \<le> start_time"
    and "\<forall>k. int k * interval < 60 \<longrightarrow>
           start_time + timedelta_minutes (int k * interval) \<le> datetime_max"
  shows "\<exists>n. (\<forall>k. k < n \<longleftrightarrow> int k * interval < 60)
       \<and> sample_times start_time interval =
           Inr (map (\<lambda>k. start_time + timedelta_minutes (int k * interval)) [0..<n])"
proof -
  from range_up_char [OF assms(1), of 0 60] obtain n where
    l: "range_up 0 60 interval = map (\<lambda>k. int k * interval) [0..<n]"
    and b: "\<And>k. k < n \<longleftrightarrow> int k * interval < 60"
    by auto
  have r: "\<forall>i \<in> set (range_up 0 60 interval).
      datetime_min \<le> start_time + timedelta_minutes i
      \<and> start_time + timedelta_minutes i \<le> datetime_max"
  proof
    fix i assume "i \<in> set (range_up 0 60 interval)"
    then obtain k where k: "k < n" and i: "i = int k * interval"
      unfolding l by auto
    from k b have "int k * interval < 60" by simp
    with assms(3) i have "start_time + timedelta_minutes i \<le> datetime_max" by simp
    moreover have "0 \<le> timedelta_minutes i"
      using i assms(1) by (simp add: timedelta_minutes_def)
    ultimately show "datetime_min \<le> start_time + timedelta_minutes i
        \<and> start_time + timedelta_minutes i \<le> datetime_max"
      using assms(2) by simp
  qed
  have "sample_times start_time interval =
      Inr (map (\<lambda>k. start_time + timedelta_minutes (int k * interval)) [0..<n])"
    using assms(1) add_minutes_each_in_range [OF r]
    by (simp add: sample_times_def py_range_def l comp_def)
  with b show ?thesis by blast
qed

subsection \<open>The two loops\<close>

lemma for_sites_append:
  "for_sites lib t s i (xs @ ys) out =
     (case for_sites lib t s i xs out of
        (out', Inl e) \<Rightarrow> (out', Inl e)
      | (out', Inr u) \<Rightarrow> for_sites lib t s i ys out')"
  by (induction xs arbitrary: out) (auto split: sum.splits prod.splits)

lemma for_facilities_flat:
  "for_facilities lib t s i reg out = for_sites lib t s i (concat (map snd reg)) out"
  by (induction reg arbitrary: out)
     (auto simp add: for_sites_append split: sum.splits prod.splits)

text \<open>The method as one loop over all the sites.\<close>

lemma get_visibility_flat:
  "get_visibility lib t s e i =
     (case load lib of
        Some x \<Rightarrow> ([], Inl (LibraryError x))
      | None \<Rightarrow>
          (case for_sites lib t s i (all_sites lib) [] of
             (out, Inl err) \<Rightarrow> (out, Inl err)
           | (out, Inr u) \<Rightarrow> (out, Inr PyNone)))"
  by (simp add: get_visibility_def for_facilities_flat all_sites_def split: option.splits)

lemma get_visibility_no_sites:
  "all_sites lib = [] \<Longrightarrow> load lib = None \<Longrightarrow> get_visibility lib t s e i = ([], Inr PyNone)"
  by (simp add: get_visibility_flat)

lemma site_body_Inr:
  fixes lib :: "('x, 'c, 'o, 'a, 'd) library"
  shows "site_body lib t s i d = Inr lines \<Longrightarrow>
     \<exists>obs samples alt az dd.
       observing_site lib (d ''latitude'') (d ''longitude'') = Inr obs
       \<and> (sample_times s i :: 'x error + datetime list) = Inr samples
       \<and> altaz lib obs samples (get_object_instance_for_type t) = Inr (alt, az, dd)
       \<and> lines = print_altaz alt az dd"
  by (auto simp add: site_body_def Let_def split: sum.splits prod.splits)

text \<open>
  A run of the loop that ends without an exception has asked the library about every
  site of the list, in the order of the list, and printed each answer.
\<close>

lemma for_sites_Inr:
  fixes lib :: "('x, 'c, 'o, 'a, 'd) library"
  shows "for_sites lib t s i sites out = (out', Inr u) \<Longrightarrow>
     \<exists>triples.
       list_all2 (\<lambda>(site, d) triple. \<exists>obs samples.
           observing_site lib (d ''latitude'') (d ''longitude'') = Inr obs
           \<and> (sample_times s i :: 'x error + datetime list) = Inr samples
           \<and> altaz lib obs samples (get_object_instance_for_type t) = Inr triple)
         sites triples
       \<and> out' = out @ concat (map (\<lambda>(alt, az, dd). print_altaz alt az dd) triples)"
proof (induction sites arbitrary: out)
  case Nil
  then show ?case by simp
next
  case (Cons sd sites)
  obtain site d where sd: "sd = (site, d)" by (cases sd)
  from Cons.prems sd obtain lines where
    b: "site_body lib t s i d = Inr lines"
    and r: "for_sites lib t s i sites (out @ lines) = (out', Inr u)"
    by (auto split: sum.splits)
  from site_body_Inr [OF b] obtain obs samples alt az dd where
    a: "observing_site lib (d ''latitude'') (d ''longitude'') = Inr obs"
      "(sample_times s i :: 'x error + datetime list) = Inr samples"
      "altaz lib obs samples (get_object_instance_for_type t) = Inr (alt, az, dd)"
    and l: "lines = print_altaz alt az dd"
    by blast
  from Cons.IH [OF r] obtain triples where
    n: "list_all2 (\<lambda>(site, d) triple. \<exists>obs samples.
           observing_site lib (d ''latitude'') (d ''longitude'') = Inr obs
           \<and> (sample_times s i :: 'x error + datetime list) = Inr samples
           \<and> altaz lib obs samples (get_object_instance_for_type t) = Inr triple)
         sites triples"
    and o: "out' = (out @ lines) @ concat (map (\<lambda>(alt, az, dd). print_altaz alt az dd) triples)"
    by blast
  have "list_all2 (\<lambda>(site, d) triple. \<exists>obs samples.
           observing_site lib (d ''latitude'') (d ''longitude'') = Inr obs
           \<and> (sample_times s i :: 'x error + datetime list) = Inr samples
           \<and> altaz lib obs samples (get_object_instance_for_type t) = Inr triple)
         (sd # sites) ((alt, az, dd) # triples)"
    using n a sd by auto
  moreover have "out' = out @ concat (map (\<lambda>(alt, az, dd). print_altaz alt az dd)
      ((alt, az, dd) # triples))"
    using o l by simp
  ultimately show ?case by blast
qed

text \<open>The run that a list of answers stands for, answer by answer.\<close>

lemma report_Nil: "report [] = ([], Inr PyNone)"
  by (simp add: report_def)

lemma report_Inl: "report (Inl x # ans) = ([], Inl (LibraryError x))"
  by (simp add: report_def)

lemma report_Inr:
  "report (Inr (alt, az, dd) # ans) =
     (print_altaz alt az dd @ fst (report ans), snd (report ans))"
  by (simp add: report_def printed_for_def)

lemma report_cases:
  "(\<exists>x. snd (report ans) = Inl (LibraryError x)) \<or> snd (report ans) = Inr PyNone"
  by (simp add: report_def split: option.splits)

text \<open>
  Once the list of line 107 exists, the body of the loop turns the library's answer for
  a site into printed lines or into the exception, and the loop is the report of the
  answers for its sites.
\<close>

lemma site_body_answer:
  fixes lib :: "('x, 'c, 'o, 'a, 'd) library"
  assumes "(sample_times s i :: 'x error + datetime list) = Inr samples"
  shows "site_body lib t s i d =
     (case site_answer lib samples (get_object_instance_for_type t) d of
        Inl x \<Rightarrow> Inl (LibraryError x)
      | Inr (alt, az, dd) \<Rightarrow> Inr (print_altaz alt az dd))"
  using assms by (simp add: site_body_def site_answer_def split: sum.splits)

lemma for_sites_report:
  fixes lib :: "('x, 'c, 'o, 'a, 'd) library"
  assumes "(sample_times s i :: 'x error + datetime list) = Inr samples"
  shows "for_sites lib t s i sites out =
     (out @ fst (report (answers lib samples (get_object_instance_for_type t) sites)),
      case snd (report (answers lib samples (get_object_instance_for_type t) sites)) of
        Inl e \<Rightarrow> Inl e
      | Inr v \<Rightarrow> Inr ())"
proof (induction sites arbitrary: out)
  case Nil
  show ?case by (simp add: answers_def report_Nil)
next
  case (Cons sd sites)
  obtain site d where sd: "sd = (site, d)" by (cases sd)
  show ?case
  proof (cases "site_answer lib samples (get_object_instance_for_type t) d")
    case (Inl x)
    then show ?thesis
      by (simp add: sd site_body_answer [OF assms] answers_def report_Inl)
  next
    case (Inr triple)
    obtain alt az dd where tr: "triple = (alt, az, dd)" by (cases triple)
    have a: "answers lib samples (get_object_instance_for_type t) (sd # sites) =
        Inr (alt, az, dd) # answers lib samples (get_object_instance_for_type t) sites"
      using Inr tr sd by (simp add: answers_def)
    show ?thesis
      unfolding a report_Inr
      using Inr tr by (simp add: sd site_body_answer [OF assms] Cons.IH)
  qed
qed

lemma get_visibility_report:
  fixes lib :: "('x, 'c, 'o, 'a, 'd) library"
  assumes "(sample_times s i :: 'x error + datetime list) = Inr samples"
  shows "get_visibility lib t s e i =
     (case load lib of
        Some x \<Rightarrow> ([], Inl (LibraryError x))
      | None \<Rightarrow> report (answers lib samples (get_object_instance_for_type t) (all_sites lib)))"
proof (cases "load lib")
  case (Some x)
  then show ?thesis by (simp add: get_visibility_flat)
next
  case None
  obtain out r where
    rr: "report (answers lib samples (get_object_instance_for_type t) (all_sites lib)) = (out, r)"
    by (cases "report (answers lib samples (get_object_instance_for_type t) (all_sites lib))")
  from report_cases [of "answers lib samples (get_object_instance_for_type t) (all_sites lib)"]
  have "(\<exists>x. r = Inl (LibraryError x)) \<or> r = Inr PyNone"
    by (simp add: rr)
  then show ?thesis
    using None by (auto simp add: get_visibility_flat for_sites_report [OF assms] rr)
qed

text \<open>
  When line 107 raises, it does so at the first site whose position could be built, and
  nothing has been printed by then.
\<close>

lemma get_visibility_no_samples:
  fixes lib :: "('x, 'c, 'o, 'a, 'd) library"
  assumes "(sample_times s i :: 'x error + datetime list) = Inl err"
  shows "get_visibility lib t s e i =
     (case load lib of
        Some x \<Rightarrow> ([], Inl (LibraryError x))
      | None \<Rightarrow>
          (case all_sites lib of
             [] \<Rightarrow> ([], Inr PyNone)
           | (site, d) # rest \<Rightarrow>
               ([], case observing_site lib (d ''latitude'') (d ''longitude'') of
                      Inl x \<Rightarrow> Inl (LibraryError x)
                    | Inr obs \<Rightarrow> Inl err)))"
  using assms
  by (simp add: get_visibility_flat site_body_def split: option.splits list.splits sum.splits)

text \<open>A library that raises on a \<^verbatim>\<open>None\<close> target object ends the run at the first site.\<close>

lemma site_body_rejected:
  fixes lib :: "('x, 'c, 'o, 'a, 'd) library"
  assumes "\<And>obs ts. \<exists>x. altaz lib obs ts None = Inl x"
  shows "\<exists>err. site_body lib t s i d = Inl err"
proof (cases "observing_site lib (d ''latitude'') (d ''longitude'')")
  case (Inl x)
  then show ?thesis by (simp add: site_body_def)
next
  case (Inr obs)
  show ?thesis
  proof (cases "sample_times s i :: 'x error + datetime list")
    case (Inl e)
    with Inr show ?thesis by (simp add: site_body_def)
  next
    case r: (Inr ts)
    from assms obtain x where "altaz lib obs ts None = Inl x" by blast
    with Inr r show ?thesis
      by (simp add: site_body_def get_object_instance_for_type_None)
  qed
qed

lemma for_sites_rejected:
  fixes lib :: "('x, 'c, 'o, 'a, 'd) library"
  assumes "\<And>obs ts. \<exists>x. altaz lib obs ts None = Inl x"
  shows "\<exists>r. for_sites lib t s i sites out = (out, r)
           \<and> (sites = [] \<longrightarrow> r = Inr ()) \<and> (sites \<noteq> [] \<longrightarrow> (\<exists>err. r = Inl err))"
proof (cases sites)
  case Nil
  then show ?thesis by simp
next
  case (Cons sd rest)
  obtain site d where sd: "sd = (site, d)" by (cases sd)
  from site_body_rejected [OF assms] obtain err where "site_body lib t s i d = Inl err"
    by blast
  with Cons sd show ?thesis by simp
qed

lemma get_visibility_rejected:
  fixes lib :: "('x, 'c, 'o, 'a, 'd) library"
  assumes "\<And>obs ts. \<exists>x. altaz lib obs ts None = Inl x"
  shows "fst (get_visibility lib t s e i) = []"
    and "all_sites lib \<noteq> [] \<Longrightarrow> \<exists>err. snd (get_visibility lib t s e i) = Inl err"
proof -
  from for_sites_rejected [OF assms, of t s i "all_sites lib" "[]"] obtain r where
    r: "for_sites lib t s i (all_sites lib) [] = ([], r)"
    and n: "all_sites lib \<noteq> [] \<longrightarrow> (\<exists>err. r = Inl err)"
    by blast
  show "fst (get_visibility lib t s e i) = []"
    by (simp add: get_visibility_flat r split: option.splits sum.splits)
  show "\<exists>err. snd (get_visibility lib t s e i) = Inl err" if "all_sites lib \<noteq> []"
    using n that by (auto simp add: get_visibility_flat r split: option.splits sum.splits)
qed

subsection \<open>Runs on the concrete inputs\<close>

lemmas run_defs = get_visibility_def site_body_def print_altaz_def example_site_def
  get_object_instance_for_type_None sample_times_def py_range_def range_up.simps
  range_down.simps timedelta_minutes_def datetime_add_def datetime_min_def datetime_max_def

lemma run_echo_15:
  "get_visibility echo_library example_star 0 3600000000 15 =
     ([PrintAngle [0, 900000000, 1800000000, 2700000000],
       PrintAngle [0, 900000000, 1800000000, 2700000000],
       PrintDistance None, PrintBlank], Inr PyNone)"
  by (simp add: echo_library_def run_defs)

lemma run_echo_other:
  "get_visibility echo_library example_other 0 3600000000 30 =
     ([PrintAngle [0, 1800000000], PrintAngle [0, 1800000000],
       PrintDistance None, PrintBlank], Inr PyNone)"
  by (simp add: echo_library_def run_defs)


lemma run_echo_late:
  "get_visibility echo_library example_star late_start datetime_max 10 =
     ([], Inl OverflowError)"
  by (simp add: echo_library_def late_start_def run_defs)

lemma run_strict_late:
  "get_visibility strict_library example_star late_start datetime_max 10 =
     ([], Inl OverflowError)"
  by (simp add: strict_library_def echo_library_def late_start_def run_defs)

lemma run_strict_other:
  "get_visibility strict_library example_other 0 3600000000 10 =
     ([], Inl (LibraryError ''AttributeError''))"
  by (simp add: strict_library_def echo_library_def run_defs)

lemma run_strict_star:
  "get_visibility strict_library example_star 0 3600000000 15 =
     ([], Inl (LibraryError ''AttributeError''))"
  by (simp add: strict_library_def echo_library_def run_defs)

lemma run_no_sites:
  "get_visibility no_sites_library t s e i = ([], Inr PyNone)"
  by (simp add: no_sites_library_def strict_library_def echo_library_def get_visibility_def)

lemma run_two_sites_30:
  "get_visibility two_sites_library example_star 0 3600000000 30 =
     (print_altaz ((Some (316 / 10), Some (- 1106 / 10)), [0, 1800000000])
        ((Some (316 / 10), Some (- 1106 / 10)), [0, 1800000000]) None
      @ print_altaz ((Some (- 30), Some (- 70)), [0, 1800000000])
          ((Some (- 30), Some (- 70)), [0, 1800000000]) None,
      Inr PyNone)"
  by (simp add: two_sites_library_def second_site_def run_defs)

lemma all_sites_two_sites_library:
  "all_sites two_sites_library = [(''site'', example_site), (''second'', second_site)]"
  by (simp add: all_sites_def two_sites_library_def)

lemma answers_two_sites_library:
  "answers two_sites_library samples target_object (all_sites two_sites_library) =
     [Inr (((Some (316 / 10), Some (- 1106 / 10)), samples),
           ((Some (316 / 10), Some (- 1106 / 10)), samples), target_object),
      Inr (((Some (- 30), Some (- 70)), samples),
           ((Some (- 30), Some (- 70)), samples), target_object)]"
  unfolding all_sites_two_sites_library
  by (simp add: answers_def site_answer_def two_sites_library_def example_site_def
      second_site_def)

lemma answers_strict_library:
  "answers strict_library samples None (all_sites strict_library) = [Inl ''AttributeError'']"
  by (simp add: all_sites_def answers_def site_answer_def strict_library_def echo_library_def)

subsection \<open>The time samples in a run\<close>

text \<open>
  C3, as stated: for every positive interval \<^verbatim>\<open>get_visibility\<close> generates the samples
  \<open>start_time + k * interval\<close> minutes with \<open>k * interval < 60\<close>. It does not when one of them
  lies past \<^verbatim>\<open>datetime.max\<close>: from 9999-12-31 23:30:00 with an interval of 10 the fourth
  addition of line 107 raises \<^verbatim>\<open>OverflowError\<close>, no list is built, and the call ends with
  that exception before the library is asked, whichever library it is.
\<close>

theorem sample_times_overflow_counterexample:
  "datetime_min \<le> late_start \<and> late_start \<le> datetime_max
   \<and> (sample_times late_start 10 :: string error + datetime list) = Inl OverflowError
   \<and> get_visibility echo_library example_star late_start datetime_max 10 =
       ([], Inl OverflowError)
   \<and> get_visibility strict_library example_star late_start datetime_max 10 =
       ([], Inl OverflowError)"
  by (simp add: run_echo_late run_strict_late)
     (simp add: late_start_def sample_times_def py_range_def range_up.simps
        timedelta_minutes_def datetime_add_def datetime_min_def datetime_max_def)

text \<open>
  C3, amended. For a positive interval and a start time from which every sample stays
  within the range of \<^verbatim>\<open>datetime\<close>, the list of line 107 holds
  \<open>start_time + k * interval\<close> minutes for \<open>k = 0, 1, \<dots>\<close>, in this order, for exactly those
  \<open>k\<close> with \<open>k * interval < 60\<close>, whatever \<^verbatim>\<open>end_time\<close> is; for an interval of 10 these are 6
  samples. \<^verbatim>\<open>get_visibility\<close> hands this list to the library for each site it reaches:
  once the ephemeris has loaded, the run is the report of the library's answers about
  this list for the sites of the registry, in the order of the registry, up to the first
  exception.
\<close>

theorem sample_times_in_get_visibility:
  fixes lib :: "('x, 'c, 'o, 'a, 'd) library"
  assumes "0 < interval" and "datetime_min \<le> start_time"
    and "\<forall>k. int k * interval < 60 \<longrightarrow>
           start_time + timedelta_minutes (int k * interval) \<le> datetime_max"
  shows "\<exists>n. (\<forall>k. k < n \<longleftrightarrow> int k * interval < 60)
       \<and> (interval = 10 \<longrightarrow> n = 6)
       \<and> (sample_times start_time interval :: 'x error + datetime list) =
           Inr (map (\<lambda>k. start_time + timedelta_minutes (int k * interval)) [0..<n])
       \<and> get_visibility lib self start_time end_time interval =
           (case load lib of
              Some x \<Rightarrow> ([], Inl (LibraryError x))
            | None \<Rightarrow>
                report (answers lib
                  (map (\<lambda>k. start_time + timedelta_minutes (int k * interval)) [0..<n])
                  (get_object_instance_for_type self) (all_sites lib)))"
proof -
  from sample_times_positive [OF assms] obtain n where
    b: "\<And>k. k < n \<longleftrightarrow> int k * interval < 60"
    and s: "(sample_times start_time interval :: 'x error + datetime list) =
      Inr (map (\<lambda>k. start_time + timedelta_minutes (int k * interval)) [0..<n])"
    by blast
  have "n = 6" if "interval = 10"
  proof -
    from b [of 5] b [of 6] that have "5 < n" "\<not> 6 < n" by simp_all
    then show ?thesis by simp
  qed
  with b s get_visibility_report [OF s, of lib self end_time] show ?thesis
    by blast
qed

theorem sample_times_in_get_visibility_witness:
  "(0::int) < 10 \<and> datetime_min \<le> 0
   \<and> (sample_times 0 10 :: string error + datetime list) =
       Inr [0, 600000000, 1200000000, 1800000000, 2400000000, 3000000000]
   \<and> get_visibility two_sites_library example_star 0 3600000000 10 =
       (print_altaz
          ((Some (316 / 10), Some (- 1106 / 10)),
           [0, 600000000, 1200000000, 1800000000, 2400000000, 3000000000])
          ((Some (316 / 10), Some (- 1106 / 10)),
           [0, 600000000, 1200000000, 1800000000, 2400000000, 3000000000]) None
        @ print_altaz
            ((Some (- 30), Some (- 70)),
             [0, 600000000, 1200000000, 1800000000, 2400000000, 3000000000])
            ((Some (- 30), Some (- 70)),
             [0, 600000000, 1200000000, 1800000000, 2400000000, 3000000000]) None,
        Inr PyNone)"
proof -
  have h: "(0::int) < 10" by simp
  have m: "datetime_min \<le> 0" by (simp add: datetime_min_def)
  have r: "\<forall>k. int k * 10 < 60 \<longrightarrow> 0 + timedelta_minutes (int k * 10) \<le> datetime_max"
    by (simp add: timedelta_minutes_def datetime_max_def)
  have l: "load two_sites_library = None" by (simp add: two_sites_library_def)
  from sample_times_in_get_visibility [OF h m r, of two_sites_library example_star 3600000000]
  obtain n where
    n: "n = 6"
    and s: "(sample_times 0 10 :: string error + datetime list) =
          Inr (map (\<lambda>k. 0 + timedelta_minutes (int k * 10)) [0..<n])"
    and g: "get_visibility two_sites_library example_star 0 3600000000 10 =
           (case load two_sites_library of
              Some x \<Rightarrow> ([], Inl (LibraryError x))
            | None \<Rightarrow>
                report (answers two_sites_library
                  (map (\<lambda>k. 0 + timedelta_minutes (int k * 10)) [0..<n])
                  (get_object_instance_for_type example_star) (all_sites two_sites_library)))"
    by auto
  have e: "map (\<lambda>k. 0 + timedelta_minutes (int k * 10)) [0..<6] =
      [0, 600000000, 1200000000, 1800000000, 2400000000, 3000000000]"
    by (simp add: upt_conv_Cons timedelta_minutes_def)
  show ?thesis
    unfolding s g n e l answers_two_sites_library
    by (simp add: h m report_Inr report_Nil get_object_instance_for_type_None)
qed

subsection \<open>Targets of another type\<close>

text \<open>
  C2, as stated: for a target whose type is neither \<^verbatim>\<open>SIDEREAL\<close> nor \<^verbatim>\<open>NON_SIDEREAL\<close>,
  \<^verbatim>\<open>get_visibility\<close> fails with an error for the unsupported type and prints nothing. The
  file raises no such error. With no site registered the call returns normally; with a
  site, the target object \<^verbatim>\<open>None\<close> goes to the library, and the call prints and returns
  normally if the library answers, and fails with the library's own exception if the
  library raises.
\<close>

theorem unsupported_type_counterexample:
  "type example_other \<noteq> SIDEREAL \<and> type example_other \<noteq> NON_SIDEREAL
   \<and> get_visibility no_sites_library example_other 0 3600000000 10 =
       ([], Inr PyNone)
   \<and> get_visibility echo_library example_other 0 3600000000 30 =
       ([PrintAngle [0, 1800000000], PrintAngle [0, 1800000000],
         PrintDistance None, PrintBlank], Inr PyNone)
   \<and> get_visibility strict_library example_other 0 3600000000 10 =
       ([], Inl (LibraryError ''AttributeError''))"
  by (simp add: example_other_type run_no_sites run_echo_other run_strict_other)

text \<open>
  C2, amended. For a target whose type is neither \<^verbatim>\<open>SIDEREAL\<close> nor \<^verbatim>\<open>NON_SIDEREAL\<close>,
  \<^verbatim>\<open>get_object_instance_for_type\<close> returns \<^verbatim>\<open>None\<close> and raises nothing, and \<^verbatim>\<open>get_visibility\<close> has
  no error of its own for the type: it hands \<^verbatim>\<open>None\<close> to the library as the target object.
  When line 107 builds its list, the run is, once the ephemeris has loaded, the report
  of the library's answers about that list and \<^verbatim>\<open>None\<close> for the sites of the registry, in
  the order of the registry: it prints the answers that come before the first exception
  of the library and ends with that exception, or returns \<^verbatim>\<open>None\<close> when the library raises
  none. When line 107 raises, the run prints nothing and ends, if a site is registered,
  with the exception of building the first site's position or else with that of line
  107. With the ephemeris loaded and no site registered the call returns normally,
  having printed nothing. With a library that raises on a \<^verbatim>\<open>None\<close> target object,
  \<^verbatim>\<open>get_visibility\<close> prints nothing, and it ends with an exception as soon as one site is
  registered.
\<close>

theorem unsupported_type_handling:
  fixes lib :: "('x, 'c, 'o, 'a, 'd) library"
  assumes "type t \<noteq> SIDEREAL" and "type t \<noteq> NON_SIDEREAL"
  shows "get_object_instance_for_type t = None
     \<and> ((sample_times s i :: 'x error + datetime list) = Inr samples \<longrightarrow>
          get_visibility lib t s e i =
            (case load lib of
               Some x \<Rightarrow> ([], Inl (LibraryError x))
             | None \<Rightarrow> report (answers lib samples None (all_sites lib))))
     \<and> ((sample_times s i :: 'x error + datetime list) = Inl err \<longrightarrow>
          get_visibility lib t s e i =
            (case load lib of
               Some x \<Rightarrow> ([], Inl (LibraryError x))
             | None \<Rightarrow>
                 (case all_sites lib of
                    [] \<Rightarrow> ([], Inr PyNone)
                  | (site, d) # rest \<Rightarrow>
                      ([], case observing_site lib (d ''latitude'') (d ''longitude'') of
                             Inl x \<Rightarrow> Inl (LibraryError x)
                           | Inr obs \<Rightarrow> Inl err))))
     \<and> (all_sites lib = [] \<and> load lib = None \<longrightarrow>
          get_visibility lib t s e i = ([], Inr PyNone))
     \<and> ((\<forall>obs ts. \<exists>x. altaz lib obs ts None = Inl x) \<longrightarrow>
          fst (get_visibility lib t s e i) = []
          \<and> (all_sites lib \<noteq> [] \<longrightarrow> (\<exists>err. snd (get_visibility lib t s e i) = Inl err)))"
proof -
  have "get_visibility lib t s e i =
      (case load lib of
         Some x \<Rightarrow> ([], Inl (LibraryError x))
       | None \<Rightarrow> report (answers lib samples None (all_sites lib)))"
    if "(sample_times s i :: 'x error + datetime list) = Inr samples"
    using get_visibility_report [OF that, of lib t e]
    by (simp add: get_object_instance_for_type_None cong: option.case_cong)
  moreover have "get_visibility lib t s e i =
      (case load lib of
         Some x \<Rightarrow> ([], Inl (LibraryError x))
       | None \<Rightarrow>
           (case all_sites lib of
              [] \<Rightarrow> ([], Inr PyNone)
            | (site, d) # rest \<Rightarrow>
                ([], case observing_site lib (d ''latitude'') (d ''longitude'') of
                       Inl x \<Rightarrow> Inl (LibraryError x)
                     | Inr obs \<Rightarrow> Inl err)))"
    if "(sample_times s i :: 'x error + datetime list) = Inl err"
    by (rule get_visibility_no_samples [OF that])
  moreover have "fst (get_visibility lib t s e i) = []
      \<and> (all_sites lib \<noteq> [] \<longrightarrow> (\<exists>err. snd (get_visibility lib t s e i) = Inl err))"
    if "\<forall>obs ts. \<exists>x. altaz lib obs ts None = Inl x"
    using get_visibility_rejected [of lib t s e i] that by auto
  ultimately show ?thesis
    by (simp add: get_object_instance_for_type_None get_visibility_no_sites)
qed

theorem unsupported_type_handling_witness:
  "get_object_instance_for_type example_other = None
   \<and> (sample_times 0 30 :: string error + datetime list) = Inr [0, 1800000000]
   \<and> get_visibility strict_library example_other 0 3600000000 30 =
       ([], Inl (LibraryError ''AttributeError''))
   \<and> get_visibility two_sites_library example_other 0 3600000000 30 =
       (print_altaz ((Some (316 / 10), Some (- 1106 / 10)), [0, 1800000000])
          ((Some (316 / 10), Some (- 1106 / 10)), [0, 1800000000]) None
        @ print_altaz ((Some (- 30), Some (- 70)), [0, 1800000000])
            ((Some (- 30), Some (- 70)), [0, 1800000000]) None,
        Inr PyNone)
   \<and> (sample_times 0 0 :: string error + datetime list) = Inl ValueError
   \<and> get_visibility strict_library example_other 0 3600000000 0 = ([], Inl ValueError)
   \<and> all_sites strict_library \<noteq> []
   \<and> (\<forall>obs ts. \<exists>x. altaz strict_library obs ts None = Inl x)
   \<and> fst (get_visibility strict_library example_other 0 3600000000 10) = []
   \<and> (\<exists>err. snd (get_visibility strict_library example_other 0 3600000000 10) = Inl err)"
proof -
  note ty = example_other_type [THEN conjunct1] example_other_type [THEN conjunct2]
  have s30: "(sample_times 0 30 :: string error + datetime list) = Inr [0, 1800000000]"
    by (simp add: sample_times_def py_range_def range_up.simps timedelta_minutes_def
        datetime_add_def datetime_min_def datetime_max_def)
  have s0: "(sample_times 0 0 :: string error + datetime list) = Inl ValueError"
    by (rule sample_times_zero)
  have a: "all_sites strict_library = [(''site'', example_site)]"
    by (simp add: all_sites_def strict_library_def echo_library_def)
  have l: "load strict_library = None" "load two_sites_library = None"
    by (simp_all add: strict_library_def echo_library_def two_sites_library_def)
  have o: "observing_site strict_library (example_site ''latitude'') (example_site ''longitude'')
      = Inr (Some (316 / 10), Some (- 1106 / 10))"
    by (simp add: strict_library_def echo_library_def example_site_def)
  have r: "\<forall>obs ts. \<exists>x. altaz strict_library obs ts None = Inl x"
    by (simp add: strict_library_def)
  note u = unsupported_type_handling [OF ty, of 0 30 "[0, 1800000000]" strict_library
      3600000000 ValueError]
  note v = unsupported_type_handling [OF ty, of 0 30 "[0, 1800000000]" two_sites_library
      3600000000 ValueError]
  note w = unsupported_type_handling [OF ty, of 0 0 "[]" strict_library 3600000000 ValueError]
  note x = unsupported_type_handling [OF ty, of 0 10 "[]" strict_library 3600000000 ValueError]
  from u s30 have "get_visibility strict_library example_other 0 3600000000 30 =
      ([], Inl (LibraryError ''AttributeError''))"
    by (simp add: l answers_strict_library report_Inl)
  moreover from v s30 have "get_visibility two_sites_library example_other 0 3600000000 30 =
       (print_altaz ((Some (316 / 10), Some (- 1106 / 10)), [0, 1800000000])
          ((Some (316 / 10), Some (- 1106 / 10)), [0, 1800000000]) None
        @ print_altaz ((Some (- 30), Some (- 70)), [0, 1800000000])
            ((Some (- 30), Some (- 70)), [0, 1800000000]) None,
        Inr PyNone)"
    by (simp add: l answers_two_sites_library report_Inr report_Nil)
  moreover from w s0 have
    "get_visibility strict_library example_other 0 3600000000 0 = ([], Inl ValueError)"
    by (simp add: l a o)
  moreover from x r a have "fst (get_visibility strict_library example_other 0 3600000000 10) = []
      \<and> (\<exists>err. snd (get_visibility strict_library example_other 0 3600000000 10) = Inl err)"
    by simp
  ultimately show ?thesis
    using u s30 s0 a r by simp
qed

subsection \<open>What the method returns\<close>

text \<open>
  C4, as stated: \<^verbatim>\<open>get_visibility\<close> returns the triples to its caller. It returns no data
  in any run. With no site registered it returns \<^verbatim>\<open>None\<close>; with a site and a library that
  raises on the \<^verbatim>\<open>None\<close> target object it ends with that exception; and with a library that
  answers, on the sidereal example, one site and an interval of 15 minutes, altitude,
  azimuth and distance are printed and the value returned is \<^verbatim>\<open>None\<close>.
\<close>

theorem get_visibility_return_counterexample:
  "get_visibility no_sites_library example_star 0 3600000000 15 = ([], Inr PyNone)
   \<and> get_visibility strict_library example_star 0 3600000000 15 =
       ([], Inl (LibraryError ''AttributeError''))
   \<and> get_visibility echo_library example_star 0 3600000000 15 =
       ([PrintAngle [0, 900000000, 1800000000, 2700000000],
         PrintAngle [0, 900000000, 1800000000, 2700000000],
         PrintDistance None, PrintBlank],
        Inr PyNone)"
  by (simp add: run_no_sites run_strict_star run_echo_15)

text \<open>
  C4, amended. \<^verbatim>\<open>get_visibility\<close> returns no data: a run that ends without an exception
  returns \<^verbatim>\<open>None\<close> (\<open>PyNone\<close>), and altitude, azimuth and distance have only been printed,
  followed by an empty line, once for each registered site and in the order of the
  registry: the lines printed for a site are the library's answer for the position of
  that site, the list of time samples of line 107 and the target object.
\<close>

theorem get_visibility_prints_and_returns_None:
  fixes lib :: "('x, 'c, 'o, 'a, 'd) library"
  shows "get_visibility lib t s e i = (out, Inr r) \<Longrightarrow>
     r = PyNone
     \<and> (\<exists>triples. length triples = length (all_sites lib)
           \<and> out = concat (map (\<lambda>(alt, az, dd). print_altaz alt az dd) triples)
           \<and> list_all2 (\<lambda>(site, d) triple. \<exists>obs samples.
                 observing_site lib (d ''latitude'') (d ''longitude'') = Inr obs
                 \<and> (sample_times s i :: 'x error + datetime list) = Inr samples
                 \<and> altaz lib obs samples (get_object_instance_for_type t) = Inr triple)
               (all_sites lib) triples)"
proof -
  assume g: "get_visibility lib t s e i = (out, Inr r)"
  then have l: "load lib = None"
    by (auto simp add: get_visibility_flat split: option.splits)
  from g l have "r = PyNone" and f: "for_sites lib t s i (all_sites lib) [] = (out, Inr ())"
    by (auto simp add: get_visibility_flat split: prod.splits sum.splits)
  from for_sites_Inr [OF f] obtain triples where
    a: "list_all2 (\<lambda>(site, d) triple. \<exists>obs samples.
           observing_site lib (d ''latitude'') (d ''longitude'') = Inr obs
           \<and> (sample_times s i :: 'x error + datetime list) = Inr samples
           \<and> altaz lib obs samples (get_object_instance_for_type t) = Inr triple)
         (all_sites lib) triples"
    and o: "out = concat (map (\<lambda>(alt, az, dd). print_altaz alt az dd) triples)"
    by auto
  from a have "length triples = length (all_sites lib)"
    by (simp add: list_all2_lengthD)
  with \<open>r = PyNone\<close> a o show ?thesis by blast
qed

theorem get_visibility_prints_and_returns_None_witness:
  "get_visibility two_sites_library example_star 0 3600000000 30 =
     (print_altaz ((Some (316 / 10), Some (- 1106 / 10)), [0, 1800000000])
        ((Some (316 / 10), Some (- 1106 / 10)), [0, 1800000000]) None
      @ print_altaz ((Some (- 30), Some (- 70)), [0, 1800000000])
          ((Some (- 30), Some (- 70)), [0, 1800000000]) None,
      Inr PyNone)
   \<and> length (all_sites two_sites_library) = 2
   \<and> get_visibility no_sites_library example_star 0 3600000000 30 = ([], Inr PyNone)
   \<and> length (all_sites no_sites_library) = 0"
proof -
  have n: "length (all_sites two_sites_library) = 2"
    by (simp add: all_sites_two_sites_library)
  have z: "length (all_sites no_sites_library) = 0"
    by (simp add: all_sites_def no_sites_library_def strict_library_def echo_library_def)
  from get_visibility_prints_and_returns_None [OF run_two_sites_30]
  have "\<exists>triples :: (((real option \<times> real option) \<times> datetime list)
        \<times> ((real option \<times> real option) \<times> datetime list) \<times> sky_object option) list.
      length triples = length (all_sites two_sites_library)"
    by blast
  moreover from get_visibility_prints_and_returns_None
    [OF run_no_sites [of example_star 0 3600000000 30]]
  have "\<exists>triples :: (datetime list \<times> datetime list \<times> sky_object option) list.
      length triples = length (all_sites no_sites_library)"
    by blast
  ultimately show ?thesis
    using n z by (simp add: run_two_sites_30 run_no_sites)
qed

subsection \<open>The interval\<close>




subsection \<open>The end of the window\<close>

text \<open>
  C9. \<^verbatim>\<open>get_visibility\<close> does not read \<^verbatim>\<open>end_time\<close>: two calls that differ in it only, with
  the same library, registry, target, start and interval, print the same and end the
  same way.
\<close>

theorem get_visibility_ignores_end_time:
  "get_visibility lib t s e1 i = get_visibility lib t s e2 i"
  by (simp add: get_visibility_def)

end
